theory Spec2Isabelle
  imports Main
begin

section \<open>Values of the host language\<close>

text \<open>
  The state in which a JavaScript promise settles. Every rejection in
  \<^verbatim>\<open>src/features/commands.ts\<close> carries a plain string as its reason.
\<close>

datatype 'a promise = Resolved 'a | Rejected string

text \<open>
  An optional string is \<open>None\<close> for \<^verbatim>\<open>undefined\<close> or \<^verbatim>\<open>null\<close>. Such a value is
  falsy, and so is the empty string; \<^verbatim>\<open>a || b\<close> yields \<^verbatim>\<open>a\<close> when it is truthy
  and \<^verbatim>\<open>b\<close> otherwise.
\<close>

fun truthy :: "string option \<Rightarrow> bool" where
  "truthy None = False"
| "truthy (Some s) = (s \<noteq> [])"

fun or_else :: "string option \<Rightarrow> string \<Rightarrow> string" where
  "or_else None b = b"
| "or_else (Some a) b = (if a \<noteq> [] then a else b)"

text \<open>
  The two regular expressions of the file. \<^verbatim>\<open>/^win/\<close> is anchored at the start of
  the string; \<^verbatim>\<open>/-beta[1-6]/\<close> is not anchored, so \<^verbatim>\<open>test\<close> scans every position.
\<close>

definition test_win :: "string \<Rightarrow> bool" where
  "test_win s = (take 3 s = ''win'')"

definition beta_here :: "string \<Rightarrow> bool" where
  "beta_here s =
     (take 5 s = ''-beta'' \<and>
      (case drop 5 s of [] \<Rightarrow> False | d # _ \<Rightarrow> d \<in> set ''123456''))"

fun test_beta :: "string \<Rightarrow> bool" where
  "test_beta [] = False"
| "test_beta (c # cs) = (beta_here (c # cs) \<or> test_beta cs)"

text \<open>
  The own enumerable keys of an object, in iteration order. An object is kept as
  the list of its entries in that order.
\<close>

definition Object_keys :: "(string \<times> 'v) list \<Rightarrow> string list" where
  "Object_keys obj = map fst obj"

section \<open>The platform\<close>

text \<open>
  \<^verbatim>\<open>process.platform\<close> and the functions of Node's \<^verbatim>\<open>path\<close> module that the file
  calls. Node selects their POSIX or Windows variant by platform, so they are
  parameters of everything below.
\<close>

record host =
  process_platform :: string
  path_basename :: "string \<Rightarrow> string"
  path_dirname :: "string \<Rightarrow> string"
  path_join :: "string \<Rightarrow> string \<Rightarrow> string"

definition isWin :: "host \<Rightarrow> bool" where
  "isWin h = test_win (process_platform h)"

subsection \<open>The POSIX variant of the path functions\<close>

text \<open>
  Used to evaluate the operations on concrete inputs. \<open>posix_basename\<close> drops
  trailing slashes and returns what follows the last remaining slash;
  \<open>posix_dirname\<close> returns what precedes that slash; \<open>posix_join\<close> joins the
  non-empty arguments with a slash and normalises the result.
\<close>

definition posix_basename :: "string \<Rightarrow> string" where
  "posix_basename p =
     rev (takeWhile (\<lambda>c. c \<noteq> CHR ''/'') (dropWhile (\<lambda>c. c = CHR ''/'') (rev p)))"

definition posix_dirname :: "string \<Rightarrow> string" where
  "posix_dirname p =
     (let hasRoot = (take 1 p = ''/'');
          r = dropWhile (\<lambda>c. c \<noteq> CHR ''/'') (dropWhile (\<lambda>c. c = CHR ''/'') (rev p))
      in if length r \<le> 1 then (if hasRoot then ''/'' else ''.'')
         else if hasRoot \<and> length r = 2 then ''//''
         else rev (tl r))"

fun split_slash :: "string \<Rightarrow> string list" where
  "split_slash [] = [[]]"
| "split_slash (c # cs) =
     (if c = CHR ''/'' then [] # split_slash cs
      else (case split_slash cs of [] \<Rightarrow> [[c]] | w # ws \<Rightarrow> (c # w) # ws))"

fun join_slash :: "string list \<Rightarrow> string" where
  "join_slash [] = []"
| "join_slash [x] = x"
| "join_slash (x # y # ys) = x @ ''/'' @ join_slash (y # ys)"

fun normalizeArray :: "string list \<Rightarrow> bool \<Rightarrow> string list \<Rightarrow> string list" where
  "normalizeArray [] allowAboveRoot res = res"
| "normalizeArray (p # parts) allowAboveRoot res =
     (if p = [] \<or> p = ''.'' then normalizeArray parts allowAboveRoot res
      else if p = ''..'' then
        (if res \<noteq> [] \<and> last res \<noteq> ''..''
           then normalizeArray parts allowAboveRoot (butlast res)
         else if allowAboveRoot
           then normalizeArray parts allowAboveRoot (res @ [''..''])
         else normalizeArray parts allowAboveRoot res)
      else normalizeArray parts allowAboveRoot (res @ [p]))"

definition posix_normalize :: "string \<Rightarrow> string" where
  "posix_normalize p =
     (let isAbsolute = (take 1 p = ''/'');
          trailingSlash = (p \<noteq> [] \<and> last p = CHR ''/'');
          q = join_slash (normalizeArray (split_slash p) (\<not> isAbsolute) []);
          q = (if q = [] \<and> \<not> isAbsolute then ''.'' else q);
          q = (if q \<noteq> [] \<and> trailingSlash then q @ ''/'' else q)
      in (if isAbsolute then ''/'' else []) @ q)"

definition posix_join :: "string \<Rightarrow> string \<Rightarrow> string" where
  "posix_join a b =
     posix_normalize (if a = [] then b else if b = [] then a else a @ ''/'' @ b)"

definition posix_host :: "string \<Rightarrow> host" where
  "posix_host platform =
     \<lparr> process_platform = platform,
       path_basename = posix_basename,
       path_dirname = posix_dirname,
       path_join = posix_join \<rparr>"

section \<open>Data of the server protocol\<close>

text \<open>
  The parts of \<^verbatim>\<open>proto.WorkspaceInformationResponse\<close> that the file reads:
  \<^verbatim>\<open>info.Dnx.RuntimePath\<close>, \<^verbatim>\<open>info.Dnx.Projects\<close> and, of each project,
  \<^verbatim>\<open>Name\<close>, \<^verbatim>\<open>Path\<close> and \<^verbatim>\<open>Commands\<close>.
\<close>

record DnxProject =
  Name :: "string option"
  Path :: string
  Commands :: "(string \<times> string) list"

record DnxWorkspaceInformation =
  RuntimePath :: string
  Projects :: "DnxProject list"

record WorkspaceInformationResponse =
  Dnx :: DnxWorkspaceInformation

section \<open>Catalog entries\<close>

text \<open>
  \<^verbatim>\<open>interface Command { label; description; execute() }\<close>. The \<^verbatim>\<open>execute\<close>
  method of an entry is a closure; it is kept as the method body it was created
  from together with the variables that body captured (\<^verbatim>\<open>info\<close>, \<^verbatim>\<open>project\<close>
  and, for the dnx entries, \<^verbatim>\<open>key\<close>). \<open>Command_execute\<close> below runs it.
\<close>

datatype closure =
    DnxExecute WorkspaceInformationResponse DnxProject string
  | DnuRestore WorkspaceInformationResponse DnxProject

record Command =
  label :: string
  description :: string
  execute :: closure

section \<open>The world outside the module\<close>

text \<open>
  Calls that leave the module are recorded in a trace, oldest first:
  \<^verbatim>\<open>server.makeRequest(proto.Projects)\<close>, \<^verbatim>\<open>vscode.window.showQuickPick\<close>,
  \<^verbatim>\<open>runInTerminal(command, args, {cwd})\<close>, \<^verbatim>\<open>vscode.window.showInformationMessage\<close>,
  \<^verbatim>\<open>pathHelpers.mkdir\<close>, and the stream copy
  \<^verbatim>\<open>fs.createReadStream(from).pipe(fs.createWriteStream(to))\<close>.
\<close>

datatype event =
    MakeRequest_Projects
  | ShowQuickPick "Command list"
  | RunInTerminal string "string list" string
  | ShowInformationMessage string
  | Mkdir string
  | Pipe string string

datatype PathKind = File | Directory

text \<open>
  The world holds what the collaborators answer and the state the module changes.
  \<^item> \<open>isRunning\<close>, \<open>getSolutionPathOrFolder\<close>: the server's answers;
  \<^item> \<open>makeRequest_Projects\<close>: how the request for the projects settles;
  \<^item> \<open>quickPick_choice\<close>: the index of the item the user picks, \<open>None\<close> when the
    picker is dismissed;
  \<^item> \<open>runInTerminal_outcome\<close>: how a terminal run settles;
  \<^item> \<open>lastCommand\<close>: the module-level variable \<^verbatim>\<open>let lastCommand: Command\<close>;
  \<^item> \<open>trace\<close>: the calls made so far.
\<close>

text \<open>
  Modelled from the spec: the module \<^verbatim>\<open>pathHelpers\<close> (\<^verbatim>\<open>getPathKind\<close>, \<^verbatim>\<open>exists\<close>,
  \<^verbatim>\<open>mkdir\<close>) is not among the sources. Following the spec's Path Utilities
  (classify a path as file or directory, check existence, create a directory) and
  the way \<^verbatim>\<open>commands.ts\<close> uses the results, \<open>pathHelpers_getPathKind\<close> answers
  with a kind, \<open>pathHelpers_exists\<close> with a boolean, and \<open>pathHelpers_mkdir\<close>
  reports whether the directory was created, which \<open>mkdir_succeeds\<close> decides.
\<close>

record world =
  isRunning :: bool
  getSolutionPathOrFolder :: "string option"
  makeRequest_Projects :: "WorkspaceInformationResponse promise"
  quickPick_choice :: "Command list \<Rightarrow> nat option"
  runInTerminal_outcome :: "string \<Rightarrow> string list \<Rightarrow> string \<Rightarrow> unit promise"
  pathHelpers_getPathKind :: "string \<Rightarrow> PathKind"
  pathHelpers_exists :: "string \<Rightarrow> bool"
  mkdir_succeeds :: "string \<Rightarrow> bool"
  lastCommand :: "Command option"
  trace :: "event list"

definition emit :: "event \<Rightarrow> world \<Rightarrow> world" where
  "emit e w = w\<lparr>trace := trace w @ [e]\<rparr>"

definition makeRequest :: "world \<Rightarrow> WorkspaceInformationResponse promise \<times> world" where
  "makeRequest w = (makeRequest_Projects w, emit MakeRequest_Projects w)"

definition showQuickPick :: "Command list \<Rightarrow> world \<Rightarrow> Command option \<times> world" where
  "showQuickPick items w =
     ((case quickPick_choice w items of
         None \<Rightarrow> None
       | Some i \<Rightarrow> if i < length items then Some (items ! i) else None),
      emit (ShowQuickPick items) w)"

definition runInTerminal :: "string \<Rightarrow> string list \<Rightarrow> string \<Rightarrow> world \<Rightarrow> unit promise \<times> world" where
  "runInTerminal command args cwd w =
     (runInTerminal_outcome w command args cwd, emit (RunInTerminal command args cwd) w)"

definition showInformationMessage :: "string \<Rightarrow> world \<Rightarrow> world" where
  "showInformationMessage message w = emit (ShowInformationMessage message) w"

definition pathHelpers_mkdir :: "string \<Rightarrow> world \<Rightarrow> bool \<times> world" where
  "pathHelpers_mkdir directoryPath w =
     (if mkdir_succeeds w directoryPath
      then (True, emit (Mkdir directoryPath)
                    (w\<lparr>pathHelpers_exists := (pathHelpers_exists w)(directoryPath := True)\<rparr>))
      else (False, emit (Mkdir directoryPath) w))"

definition pipe :: "string \<Rightarrow> string \<Rightarrow> world \<Rightarrow> world" where
  "pipe oldFile newFile w =
     emit (Pipe oldFile newFile)
       (w\<lparr>pathHelpers_exists := (pathHelpers_exists w)(newFile := True)\<rparr>)"

section \<open>The dnx commands\<close>

subsection \<open>Entries and their execute methods\<close>

text \<open>The object literal pushed by \<^verbatim>\<open>dnxExecuteCommand\<close> for one project and key.\<close>

definition dnx_command :: "host \<Rightarrow> WorkspaceInformationResponse \<Rightarrow> DnxProject \<Rightarrow> string \<Rightarrow> Command" where
  "dnx_command h info project key =
     \<lparr> label = ''dnx '' @ key @ '' - ('' @
                 or_else (Name project) (path_basename h (Path project)) @ '')'',
       description = path_dirname h (Path project),
       execute = DnxExecute info project key \<rparr>"

text \<open>The object literal pushed by \<^verbatim>\<open>dnxRestoreForAll\<close> for one project.\<close>

definition restore_command :: "host \<Rightarrow> WorkspaceInformationResponse \<Rightarrow> DnxProject \<Rightarrow> Command" where
  "restore_command h info project =
     \<lparr> label = ''dnu restore - ('' @
                 or_else (Name project) (path_basename h (Path project)) @ '')'',
       description = path_dirname h (Path project),
       execute = DnuRestore info project \<rparr>"

text \<open>
  Both literals qualify the label with \<^verbatim>\<open>project.Name || path.basename(project.Path)\<close>.
\<close>

abbreviation display_name :: "host \<Rightarrow> DnxProject \<Rightarrow> string" where
  "display_name h project \<equiv> or_else (Name project) (path_basename h (Path project))"

text \<open>
  The body of \<^verbatim>\<open>execute\<close> of a dnx entry; \<open>this\<close> is the entry the method is
  called on.
\<close>

definition dnx_execute ::
  "host \<Rightarrow> WorkspaceInformationResponse \<Rightarrow> DnxProject \<Rightarrow> string \<Rightarrow> Command \<Rightarrow> world
     \<Rightarrow> unit promise \<times> world" where
  "dnx_execute h info project key this w =
     (let w = w\<lparr>lastCommand := Some this\<rparr>;
          command = path_join h (RuntimePath (Dnx info)) ''bin/dnx'';
          args = [key];
          args = (if test_beta (RuntimePath (Dnx info)) then ''.'' # args else args);
          command = (if isWin h then command @ ''.exe'' else command)
      in runInTerminal command args (path_dirname h (Path project)) w)"

text \<open>The body of \<^verbatim>\<open>execute\<close> of a restore entry.\<close>

definition restore_execute ::
  "host \<Rightarrow> WorkspaceInformationResponse \<Rightarrow> DnxProject \<Rightarrow> world \<Rightarrow> unit promise \<times> world" where
  "restore_execute h info project w =
     (let command = path_join h (RuntimePath (Dnx info)) ''bin/dnu'';
          command = (if isWin h then command @ ''.cmd'' else command)
      in runInTerminal command [''restore''] (path_dirname h (Path project)) w)"

text \<open>The call \<^verbatim>\<open>command.execute()\<close>.\<close>

definition Command_execute :: "host \<Rightarrow> Command \<Rightarrow> world \<Rightarrow> unit promise \<times> world" where
  "Command_execute h command w =
     (case execute command of
        DnxExecute info project key \<Rightarrow> dnx_execute h info project key command w
      | DnuRestore info project \<Rightarrow> restore_execute h info project w)"

subsection \<open>dnxExecuteCommand\<close>

text \<open>The array \<^verbatim>\<open>commands\<close> after the two nested \<^verbatim>\<open>forEach\<close> loops.\<close>

definition dnxExecuteCommand_commands :: "host \<Rightarrow> WorkspaceInformationResponse \<Rightarrow> Command list" where
  "dnxExecuteCommand_commands h info =
     fold (\<lambda>project commands.
             fold (\<lambda>key commands. commands @ [dnx_command h info project key])
                  (Object_keys (Commands project)) commands)
          (Projects (Dnx info)) []"

definition dnxExecuteCommand :: "host \<Rightarrow> world \<Rightarrow> unit promise \<times> world" where
  "dnxExecuteCommand h w =
     (if \<not> isRunning w then (Rejected ''OmniSharp server is not running.'', w)
      else
        (case makeRequest w of
           (Rejected reason, w) \<Rightarrow> (Rejected reason, w)
         | (Resolved info, w) \<Rightarrow>
             (case showQuickPick (dnxExecuteCommand_commands h info) w of
                (None, w) \<Rightarrow> (Resolved (), w)
              | (Some command, w) \<Rightarrow> Command_execute h command w)))"

subsection \<open>dnxExecuteLastCommand\<close>

text \<open>The function returns nothing; the promise of the call it makes is dropped.\<close>

definition dnxExecuteLastCommand :: "host \<Rightarrow> world \<Rightarrow> world" where
  "dnxExecuteLastCommand h w =
     (case lastCommand w of
        Some command \<Rightarrow> snd (Command_execute h command w)
      | None \<Rightarrow> snd (dnxExecuteCommand h w))"

subsection \<open>dnxRestoreForAll\<close>

definition dnxRestoreForAll_commands :: "host \<Rightarrow> WorkspaceInformationResponse \<Rightarrow> Command list" where
  "dnxRestoreForAll_commands h info =
     fold (\<lambda>project commands. commands @ [restore_command h info project])
          (Projects (Dnx info)) []"

definition dnxRestoreForAll :: "host \<Rightarrow> world \<Rightarrow> unit promise \<times> world" where
  "dnxRestoreForAll h w =
     (if \<not> isRunning w then (Rejected ''OmniSharp server is not running.'', w)
      else
        (case makeRequest w of
           (Rejected reason, w) \<Rightarrow> (Rejected reason, w)
         | (Resolved info, w) \<Rightarrow>
             (case showQuickPick (dnxRestoreForAll_commands h info) w of
                (None, w) \<Rightarrow> (Resolved (), w)
              | (Some command, w) \<Rightarrow> Command_execute h command w)))"

subsection \<open>dnxRestoreForProject\<close>

text \<open>
  The \<^verbatim>\<open>for (let project of info.Dnx.Projects)\<close> loop: the first project whose
  path is the file name ends it with a terminal run; when the list is exhausted
  the promise is rejected.
\<close>

fun dnxRestoreForProject_loop ::
  "host \<Rightarrow> WorkspaceInformationResponse \<Rightarrow> string \<Rightarrow> DnxProject list \<Rightarrow> world
     \<Rightarrow> unit promise \<times> world" where
  "dnxRestoreForProject_loop h info fileName [] w =
     (Rejected (''Failed to execute restore, try to run 'dnu restore' manually for '' @
                fileName @ ''.''), w)"
| "dnxRestoreForProject_loop h info fileName (project # rest) w =
     (if Path project = fileName then
        (let command = path_join h (RuntimePath (Dnx info)) ''bin/dnu'';
             command = (if isWin h then command @ ''.cmd'' else command)
         in runInTerminal command [''restore''] (path_dirname h (Path project)) w)
      else dnxRestoreForProject_loop h info fileName rest w)"

definition dnxRestoreForProject :: "host \<Rightarrow> string \<Rightarrow> world \<Rightarrow> unit promise \<times> world" where
  "dnxRestoreForProject h fileName w =
     (case makeRequest w of
        (Rejected reason, w) \<Rightarrow> (Rejected reason, w)
      | (Resolved info, w) \<Rightarrow>
          dnxRestoreForProject_loop h info fileName (Projects (Dnx info)) w)"

section \<open>dotnetRestore\<close>

text \<open>
  The function returns a rejected promise from its two guards and nothing
  (\<open>None\<close>) after them: the promise chain it starts is not returned. The chain
  computes \<^verbatim>\<open>solutionDirectory\<close> and then calls the terminal with
  \<^verbatim>\<open>cwd: solutionPathOrFolder\<close>.
\<close>

definition dotnetRestore :: "host \<Rightarrow> world \<Rightarrow> unit promise option \<times> world" where
  "dotnetRestore h w =
     (if \<not> isRunning w then (Some (Rejected ''OmniSharp server is not running.''), w)
      else if \<not> truthy (getSolutionPathOrFolder w)
        then (Some (Rejected ''No solution or folder open.''), w)
      else
        (let solutionPathOrFolder = the (getSolutionPathOrFolder w);
             solutionDirectory =
               (if pathHelpers_getPathKind w solutionPathOrFolder = File
                then path_dirname h solutionPathOrFolder
                else solutionPathOrFolder)
         in (None, snd (runInTerminal ''dotnet'' [''restore''] solutionPathOrFolder w))))"

section \<open>addTasksJson\<close>

definition ensureDirectoryCreated :: "string \<Rightarrow> world \<Rightarrow> bool \<times> world" where
  "ensureDirectoryCreated directoryPath w =
     (if pathHelpers_exists w directoryPath then (True, w)
      else pathHelpers_mkdir directoryPath w)"

definition getExpectedVsCodeFolderPath :: "host \<Rightarrow> string \<Rightarrow> world \<Rightarrow> string" where
  "getExpectedVsCodeFolderPath h solutionPathOrFolder w =
     (if pathHelpers_getPathKind w solutionPathOrFolder = File
      then path_join h (path_dirname h solutionPathOrFolder) ''.vscode''
      else path_join h solutionPathOrFolder ''.vscode'')"

definition addTasksJson :: "host \<Rightarrow> string \<Rightarrow> world \<Rightarrow> string promise \<times> world" where
  "addTasksJson h extensionPath w =
     (if \<not> isRunning w then (Rejected ''OmniSharp is not running.'', w)
      else if \<not> truthy (getSolutionPathOrFolder w)
        then (Rejected ''No solution or folder open.'', w)
      else
        (let solutionPathOrFolder = the (getSolutionPathOrFolder w);
             vscodeFolderPath = getExpectedVsCodeFolderPath h solutionPathOrFolder w;
             tasksJsonPath = path_join h vscodeFolderPath ''tasks.json''
         in if pathHelpers_exists w tasksJsonPath
            then (Resolved tasksJsonPath,
                  showInformationMessage (tasksJsonPath @ '' already exists.'') w)
            else
              (let templatePath = path_join h extensionPath ''template-tasks.json''
               in if \<not> pathHelpers_exists w templatePath
                  then (Rejected ''Could not find template-tasks.json file in extension.'', w)
                  else
                    (case ensureDirectoryCreated vscodeFolderPath w of
                       (True, w) \<Rightarrow> (Resolved tasksJsonPath, pipe templatePath tasksJsonPath w)
                     | (False, w) \<Rightarrow>
                         (Rejected (''Could not create '' @ vscodeFolderPath @ '' directory.''),
                          w)))))"

section \<open>Example inputs\<close>

text \<open>
  A workspace with two projects, one named and one without a name, and variants
  of it: a second unnamed project, a second project named \<open>web\<close>, and two
  projects whose names and keys contain the separator of the label.
\<close>

definition ex_web :: DnxProject where
  "ex_web = \<lparr> Name = Some ''web'', Path = ''/ws/web/project.json'',
              Commands = [(''run'', ''web''), (''test'', ''xunit.runner.dnx'')] \<rparr>"

definition ex_api :: DnxProject where
  "ex_api = \<lparr> Name = None, Path = ''/ws/api/project.json'',
              Commands = [(''run'', ''api'')] \<rparr>"

definition ex_lib :: DnxProject where
  "ex_lib = \<lparr> Name = None, Path = ''/ws/lib/project.json'',
              Commands = [(''run'', ''lib'')] \<rparr>"

definition ex_web2 :: DnxProject where
  "ex_web2 = \<lparr> Name = Some ''web'', Path = ''/samples/web/project.json'',
               Commands = [(''run'', ''web'')] \<rparr>"

definition ex_odd1 :: DnxProject where
  "ex_odd1 = \<lparr> Name = Some ''b - (c'', Path = ''/ws/odd1/project.json'',
               Commands = [(''a'', ''odd1'')] \<rparr>"

definition ex_odd2 :: DnxProject where
  "ex_odd2 = \<lparr> Name = Some ''c'', Path = ''/ws/odd2/project.json'',
               Commands = [(''a - (b'', ''odd2'')] \<rparr>"

definition ex_info :: "string \<Rightarrow> DnxProject list \<Rightarrow> WorkspaceInformationResponse" where
  "ex_info runtimePath projects =
     \<lparr> Dnx = \<lparr> RuntimePath = runtimePath, Projects = projects \<rparr> \<rparr>"

text \<open>
  A world with a running server opened on the solution file \<^verbatim>\<open>/ws/app.sln\<close>, a
  user who picks the first item, terminal runs that succeed, and an extension
  installed under \<^verbatim>\<open>/ext\<close>.
\<close>

definition ex_world :: "WorkspaceInformationResponse promise \<Rightarrow> world" where
  "ex_world response =
     \<lparr> isRunning = True,
       getSolutionPathOrFolder = Some ''/ws/app.sln'',
       makeRequest_Projects = response,
       quickPick_choice = (\<lambda>items. Some 0),
       runInTerminal_outcome = (\<lambda>command args cwd. Resolved ()),
       pathHelpers_getPathKind = (\<lambda>p. if p = ''/ws/app.sln'' then File else Directory),
       pathHelpers_exists =
         (\<lambda>p. p = ''/ws'' \<or> p = ''/ws/app.sln'' \<or> p = ''/ext/template-tasks.json''),
       mkdir_succeeds = (\<lambda>p. True),
       lastCommand = None,
       trace = [] \<rparr>"

section \<open>The catalogs as lists\<close>

lemma fold_push: "fold (\<lambda>x acc. acc @ [f x]) xs acc = acc @ map f xs"
  by (induction xs arbitrary: acc) simp_all

lemma fold_fold_push:
  "fold (\<lambda>p acc. fold (\<lambda>k acc. acc @ [g p k]) (ks p) acc) ps acc =
     acc @ concat (map (\<lambda>p. map (g p) (ks p)) ps)"
  by (induction ps arbitrary: acc) (simp_all add: fold_push)

lemma dnxExecuteCommand_commands_eq:
  "dnxExecuteCommand_commands h info =
     concat (map (\<lambda>project. map (dnx_command h info project) (Object_keys (Commands project)))
                 (Projects (Dnx info)))"
  unfolding dnxExecuteCommand_commands_def by (simp add: fold_fold_push)

lemma dnxRestoreForAll_commands_eq:
  "dnxRestoreForAll_commands h info = map (restore_command h info) (Projects (Dnx info))"
  unfolding dnxRestoreForAll_commands_def by (simp add: fold_push)

lemma trace_Command_execute:
  "\<exists>rest. trace (snd (Command_execute h c w)) = trace w @ rest"
  by (cases "execute c")
     (simp_all add: Command_execute_def dnx_execute_def restore_execute_def Let_def
       runInTerminal_def emit_def)

lemma dnxExecuteCommand_shows_catalog:
  assumes "isRunning w" and "makeRequest_Projects w = Resolved info"
  shows "\<exists>rest. trace (snd (dnxExecuteCommand h w)) =
           trace w @ [MakeRequest_Projects, ShowQuickPick (dnxExecuteCommand_commands h info)] @ rest"
proof -
  let ?items = "dnxExecuteCommand_commands h info"
  let ?w2 = "emit (ShowQuickPick ?items) (emit MakeRequest_Projects w)"
  have t: "trace ?w2 = trace w @ [MakeRequest_Projects, ShowQuickPick ?items]"
    by (simp add: emit_def)
  obtain r where pick: "showQuickPick ?items (emit MakeRequest_Projects w) = (r, ?w2)"
    by (simp add: showQuickPick_def)
  have run: "dnxExecuteCommand h w =
      (case r of None \<Rightarrow> (Resolved (), ?w2) | Some command \<Rightarrow> Command_execute h command ?w2)"
    using assms pick by (simp add: dnxExecuteCommand_def makeRequest_def)
  show ?thesis
  proof (cases r)
    case None
    with run t show ?thesis by simp
  next
    case (Some c)
    from trace_Command_execute [of h c ?w2] obtain rest
      where "trace (snd (Command_execute h c ?w2)) = trace ?w2 @ rest" by blast
    with run Some t show ?thesis by simp
  qed
qed

lemma dnxRestoreForAll_shows_catalog:
  assumes "isRunning w" and "makeRequest_Projects w = Resolved info"
  shows "\<exists>rest. trace (snd (dnxRestoreForAll h w)) =
           trace w @ [MakeRequest_Projects, ShowQuickPick (dnxRestoreForAll_commands h info)] @ rest"
proof -
  let ?items = "dnxRestoreForAll_commands h info"
  let ?w2 = "emit (ShowQuickPick ?items) (emit MakeRequest_Projects w)"
  have t: "trace ?w2 = trace w @ [MakeRequest_Projects, ShowQuickPick ?items]"
    by (simp add: emit_def)
  obtain r where pick: "showQuickPick ?items (emit MakeRequest_Projects w) = (r, ?w2)"
    by (simp add: showQuickPick_def)
  have run: "dnxRestoreForAll h w =
      (case r of None \<Rightarrow> (Resolved (), ?w2) | Some command \<Rightarrow> Command_execute h command ?w2)"
    using assms pick by (simp add: dnxRestoreForAll_def makeRequest_def)
  show ?thesis
  proof (cases r)
    case None
    with run t show ?thesis by simp
  next
    case (Some c)
    from trace_Command_execute [of h c ?w2] obtain rest
      where "trace (snd (Command_execute h c ?w2)) = trace ?w2 @ rest" by blast
    with run Some t show ?thesis by simp
  qed
qed

text \<open>
  C1. For a snapshot with N projects where project i exposes Mi commands, the array
  built by \<^verbatim>\<open>dnxExecuteCommand\<close> holds one entry per (project, key) pair, projects
  in snapshot order and, within a project, keys in iteration order, so it has the
  sum of the Mi as its length; the array built by \<^verbatim>\<open>dnxRestoreForAll\<close> holds one
  entry per project, in snapshot order, so it has length N. With a running server
  whose request resolves with the snapshot, each of the two functions sends the
  request and then hands exactly that array to the picker.
\<close>

theorem catalog_entries:
  "dnxExecuteCommand_commands h info =
     concat (map (\<lambda>project. map (dnx_command h info project) (Object_keys (Commands project)))
                 (Projects (Dnx info)))
   \<and> length (dnxExecuteCommand_commands h info) =
       sum_list (map (\<lambda>project. length (Object_keys (Commands project))) (Projects (Dnx info)))
   \<and> dnxRestoreForAll_commands h info = map (restore_command h info) (Projects (Dnx info))
   \<and> length (dnxRestoreForAll_commands h info) = length (Projects (Dnx info))
   \<and> (isRunning w \<and> makeRequest_Projects w = Resolved info \<longrightarrow>
        (\<exists>rest. trace (snd (dnxExecuteCommand h w)) =
           trace w @ [MakeRequest_Projects, ShowQuickPick (dnxExecuteCommand_commands h info)] @ rest)
        \<and> (\<exists>rest. trace (snd (dnxRestoreForAll h w)) =
           trace w @ [MakeRequest_Projects, ShowQuickPick (dnxRestoreForAll_commands h info)] @ rest))"
  using dnxExecuteCommand_shows_catalog [of w info h] dnxRestoreForAll_shows_catalog [of w info h]
  by (simp add: dnxExecuteCommand_commands_eq dnxRestoreForAll_commands_eq length_concat comp_def)

theorem catalog_entries_witness:
  "isRunning (ex_world (Resolved (ex_info ''/opt/dnx'' [ex_web, ex_api])))
   \<and> makeRequest_Projects (ex_world (Resolved (ex_info ''/opt/dnx'' [ex_web, ex_api])))
       = Resolved (ex_info ''/opt/dnx'' [ex_web, ex_api])
   \<and> (\<exists>rest. trace (snd (dnxExecuteCommand (posix_host ''linux'')
         (ex_world (Resolved (ex_info ''/opt/dnx'' [ex_web, ex_api]))))) =
        [MakeRequest_Projects,
         ShowQuickPick
           [dnx_command (posix_host ''linux'') (ex_info ''/opt/dnx'' [ex_web, ex_api]) ex_web ''run'',
            dnx_command (posix_host ''linux'') (ex_info ''/opt/dnx'' [ex_web, ex_api]) ex_web ''test'',
            dnx_command (posix_host ''linux'') (ex_info ''/opt/dnx'' [ex_web, ex_api]) ex_api ''run'']]
        @ rest)
   \<and> (\<exists>rest. trace (snd (dnxRestoreForAll (posix_host ''linux'')
         (ex_world (Resolved (ex_info ''/opt/dnx'' [ex_web, ex_api]))))) =
        [MakeRequest_Projects,
         ShowQuickPick
           [restore_command (posix_host ''linux'') (ex_info ''/opt/dnx'' [ex_web, ex_api]) ex_web,
            restore_command (posix_host ''linux'') (ex_info ''/opt/dnx'' [ex_web, ex_api]) ex_api]]
        @ rest)
   \<and> map label (dnxExecuteCommand_commands (posix_host ''linux'') (ex_info ''/opt/dnx'' [ex_web, ex_api]))
     = [''dnx run - (web)'', ''dnx test - (web)'', ''dnx run - (project.json)'']
   \<and> length (dnxExecuteCommand_commands (posix_host ''linux'') (ex_info ''/opt/dnx'' [ex_web, ex_api])) = 3
   \<and> map label (dnxRestoreForAll_commands (posix_host ''linux'') (ex_info ''/opt/dnx'' [ex_web, ex_api]))
     = [''dnu restore - (web)'', ''dnu restore - (project.json)'']
   \<and> length (dnxRestoreForAll_commands (posix_host ''linux'') (ex_info ''/opt/dnx'' [ex_web, ex_api])) = 2"
proof -
  let ?h = "posix_host ''linux''"
  let ?info = "ex_info ''/opt/dnx'' [ex_web, ex_api]"
  let ?w = "ex_world (Resolved ?info)"
  have run: "isRunning ?w" and req: "makeRequest_Projects ?w = Resolved ?info"
    and empty: "trace ?w = []"
    by (simp_all add: ex_world_def)
  have projects: "Projects (Dnx ?info) = [ex_web, ex_api]"
    "Object_keys (Commands ex_web) = [''run'', ''test'']"
    "Object_keys (Commands ex_api) = [''run'']"
    by (simp_all add: ex_info_def ex_web_def ex_api_def Object_keys_def)
  note c = catalog_entries [of ?h ?info ?w]
  from c have lists: "dnxExecuteCommand_commands ?h ?info =
      [dnx_command ?h ?info ex_web ''run'', dnx_command ?h ?info ex_web ''test'',
       dnx_command ?h ?info ex_api ''run'']"
    "dnxRestoreForAll_commands ?h ?info =
      [restore_command ?h ?info ex_web, restore_command ?h ?info ex_api]"
    by (simp_all add: projects)
  from c run req have shown:
    "\<exists>rest. trace (snd (dnxExecuteCommand ?h ?w)) =
        trace ?w @ [MakeRequest_Projects, ShowQuickPick (dnxExecuteCommand_commands ?h ?info)] @ rest"
    "\<exists>rest. trace (snd (dnxRestoreForAll ?h ?w)) =
        trace ?w @ [MakeRequest_Projects, ShowQuickPick (dnxRestoreForAll_commands ?h ?info)] @ rest"
    by blast+
  have labels: "map label (dnxExecuteCommand_commands ?h ?info)
       = [''dnx run - (web)'', ''dnx test - (web)'', ''dnx run - (project.json)'']"
    "map label (dnxRestoreForAll_commands ?h ?info)
       = [''dnu restore - (web)'', ''dnu restore - (project.json)'']"
    unfolding lists
    by (simp_all add: dnx_command_def restore_command_def ex_web_def ex_api_def posix_host_def
        posix_basename_def)
  have lens: "length (dnxExecuteCommand_commands ?h ?info) = 3"
    "length (dnxRestoreForAll_commands ?h ?info) = 2"
    unfolding lists by simp_all
  from shown have shown':
    "\<exists>rest. trace (snd (dnxExecuteCommand ?h ?w)) =
        [MakeRequest_Projects, ShowQuickPick
          [dnx_command ?h ?info ex_web ''run'', dnx_command ?h ?info ex_web ''test'',
           dnx_command ?h ?info ex_api ''run'']] @ rest"
    "\<exists>rest. trace (snd (dnxRestoreForAll ?h ?w)) =
        [MakeRequest_Projects, ShowQuickPick
          [restore_command ?h ?info ex_web, restore_command ?h ?info ex_api]] @ rest"
    unfolding lists empty append_Nil by simp_all
  from run req shown' labels lens show ?thesis by (intro conjI) assumption+
qed

lemmas posix_eval = posix_host_def posix_basename_def posix_dirname_def posix_join_def
  posix_normalize_def Let_def

lemmas ex_eval = ex_info_def ex_web_def ex_api_def ex_world_def

section \<open>Labels\<close>

lemma key_before_paren:
  assumes "CHR ''('' \<notin> set k"
  shows "takeWhile (\<lambda>c. c \<noteq> CHR ''('') (k @ '' - ('' @ d) = k @ '' - ''"
proof -
  have "takeWhile (\<lambda>c. c \<noteq> CHR ''('') (k @ '' - ('' @ d) =
          k @ takeWhile (\<lambda>c. c \<noteq> CHR ''('') ('' - ('' @ d)"
    using assms by (intro takeWhile_append2) auto
  then show ?thesis by simp
qed

lemma dnx_label_inj:
  assumes eq: "''dnx '' @ k @ '' - ('' @ d @ '')'' = ''dnx '' @ k' @ '' - ('' @ d' @ '')''"
      and k: "CHR ''('' \<notin> set k" and k': "CHR ''('' \<notin> set k'"
  shows "k = k' \<and> d = d'"
proof -
  from eq have e: "k @ '' - ('' @ (d @ '')'') = k' @ '' - ('' @ (d' @ '')'')" by simp
  then have "takeWhile (\<lambda>c. c \<noteq> CHR ''('') (k @ '' - ('' @ (d @ '')'')) =
             takeWhile (\<lambda>c. c \<noteq> CHR ''('') (k' @ '' - ('' @ (d' @ '')''))"
    by (rule arg_cong)
  then have "k @ '' - '' = k' @ '' - ''"
    by (simp only: key_before_paren [OF k] key_before_paren [OF k'])
  then have kk: "k = k'" by simp
  with e have "d = d'" by simp
  with kk show ?thesis by simp
qed

lemma distinct_concat_map:
  assumes "distinct (map d ps)"
      and "\<And>p. p \<in> set ps \<Longrightarrow> distinct (ks p)"
      and "\<And>p q k k'. p \<in> set ps \<Longrightarrow> q \<in> set ps \<Longrightarrow> k \<in> set (ks p) \<Longrightarrow> k' \<in> set (ks q) \<Longrightarrow>
             f p k = f q k' \<Longrightarrow> d p = d q \<and> k = k'"
  shows "distinct (concat (map (\<lambda>p. map (f p) (ks p)) ps))"
  using assms
proof (induction ps)
  case Nil
  then show ?case by simp
next
  case (Cons p ps)
  have "\<And>k k'. k \<in> set (ks p) \<Longrightarrow> k' \<in> set (ks p) \<Longrightarrow> f p k = f p k' \<Longrightarrow> k = k'"
    using Cons.prems(3) [of p p] by simp
  then have inj: "inj_on (f p) (set (ks p))"
    by (simp add: inj_on_def)
  have 1: "distinct (map (f p) (ks p))"
    using Cons.prems(2) [of p] inj by (simp add: distinct_map)
  have 2: "distinct (concat (map (\<lambda>p. map (f p) (ks p)) ps))"
  proof (rule Cons.IH)
    show "distinct (map d ps)" using Cons.prems(1) by simp
    show "distinct (ks q)" if "q \<in> set ps" for q
      using that Cons.prems(2) [of q] by simp
    show "d q = d q' \<and> k = k'"
      if "q \<in> set ps" "q' \<in> set ps" "k \<in> set (ks q)" "k' \<in> set (ks q')" "f q k = f q' k'"
      for q q' k k'
      using that Cons.prems(3) [of q q' k k'] by simp
  qed
  have 3: "f p k \<noteq> f q k'" if "k \<in> set (ks p)" "q \<in> set ps" "k' \<in> set (ks q)" for k q k'
  proof
    assume "f p k = f q k'"
    with that Cons.prems(3) [of p q k k'] have "d p = d q" by simp
    with \<open>q \<in> set ps\<close> Cons.prems(1) show False by (simp add: image_iff) metis
  qed
  have "set (map (f p) (ks p)) \<inter> set (concat (map (\<lambda>p. map (f p) (ks p)) ps)) = {}"
    using 3 by (simp add: disjoint_iff image_iff) metis
  with 1 2 show ?case by simp
qed

lemma dnx_labels_distinct:
  assumes names: "distinct (map (display_name h) (Projects (Dnx info)))"
      and keys: "\<forall>project \<in> set (Projects (Dnx info)).
                   distinct (Object_keys (Commands project)) \<and>
                   (\<forall>key \<in> set (Object_keys (Commands project)). CHR ''('' \<notin> set key)"
  shows "distinct (map label (dnxExecuteCommand_commands h info))"
proof -
  let ?ps = "Projects (Dnx info)"
  let ?f = "\<lambda>p k. ''dnx '' @ k @ '' - ('' @ display_name h p @ '')''"
  have "map label (dnxExecuteCommand_commands h info) =
          concat (map (\<lambda>p. map (?f p) (Object_keys (Commands p))) ?ps)"
    by (simp add: dnxExecuteCommand_commands_eq map_concat comp_def dnx_command_def)
  moreover have "distinct (concat (map (\<lambda>p. map (?f p) (Object_keys (Commands p))) ?ps))"
  proof (rule distinct_concat_map [where d = "display_name h"])
    show "distinct (map (display_name h) ?ps)" by (rule names)
    show "distinct (Object_keys (Commands p))" if "p \<in> set ?ps" for p
      using that keys by blast
    show "display_name h p = display_name h q \<and> k = k'"
      if "p \<in> set ?ps" "q \<in> set ?ps" "k \<in> set (Object_keys (Commands p))"
        "k' \<in> set (Object_keys (Commands q))" and eq: "?f p k = ?f q k'" for p q k k'
    proof -
      from that keys have "CHR ''('' \<notin> set k" "CHR ''('' \<notin> set k'" by blast+
      with eq have "k = k' \<and> display_name h p = display_name h q" by (rule dnx_label_inj)
      then show "display_name h p = display_name h q \<and> k = k'" by simp
    qed
  qed
  ultimately show ?thesis by simp
qed

lemma restore_labels_distinct:
  "distinct (map label (dnxRestoreForAll_commands h info)) =
     distinct (map (display_name h) (Projects (Dnx info)))"
proof -
  have a: "map label (dnxRestoreForAll_commands h info) =
          map (\<lambda>d. ''dnu restore - ('' @ d @ '')'') (map (display_name h) (Projects (Dnx info)))"
    by (simp add: dnxRestoreForAll_commands_eq restore_command_def comp_def)
  have b: "distinct (map (\<lambda>d. ''dnu restore - ('' @ d @ '')'') ds) = distinct ds" for ds
    by (simp add: distinct_map inj_on_def)
  show ?thesis unfolding a by (rule b)
qed

text \<open>
  C2 (as amended). A label is the action and key followed by the project's display
  name in parentheses, the display name being \<^verbatim>\<open>Name\<close> or, when that is unset or
  empty, the basename of \<^verbatim>\<open>Path\<close>. Two entries for the same key, and two restore
  entries, have equal labels exactly when the display names of their projects are
  equal. So the labels of the restore catalog are pairwise distinct exactly when
  the display names of the projects are, and the labels of the dnx catalog are
  pairwise distinct when the display names are, each project's keys are, and no key
  contains an opening parenthesis. In particular two projects with the same key and
  different non-empty names get different labels.
\<close>

theorem labels_unique:
  "(distinct (map (display_name h) (Projects (Dnx info))) \<and>
    (\<forall>project \<in> set (Projects (Dnx info)).
       distinct (Object_keys (Commands project)) \<and>
       (\<forall>key \<in> set (Object_keys (Commands project)). CHR ''('' \<notin> set key))
    \<longrightarrow> distinct (map label (dnxExecuteCommand_commands h info)))
   \<and> distinct (map label (dnxRestoreForAll_commands h info)) =
       distinct (map (display_name h) (Projects (Dnx info)))
   \<and> (\<forall>p q key. (label (dnx_command h info p key) = label (dnx_command h info q key))
                   = (display_name h p = display_name h q))
   \<and> (\<forall>p q. (label (restore_command h info p) = label (restore_command h info q))
               = (display_name h p = display_name h q))
   \<and> (\<forall>p q key n m. Name p = Some n \<and> Name q = Some m \<and> n \<noteq> [] \<and> m \<noteq> [] \<and> n \<noteq> m \<longrightarrow>
         label (dnx_command h info p key) \<noteq> label (dnx_command h info q key) \<and>
         label (restore_command h info p) \<noteq> label (restore_command h info q))"
proof -
  have C: "\<forall>p q key. (label (dnx_command h info p key) = label (dnx_command h info q key))
                       = (display_name h p = display_name h q)"
    by (simp add: dnx_command_def)
  have D: "\<forall>p q. (label (restore_command h info p) = label (restore_command h info q))
                       = (display_name h p = display_name h q)"
    by (simp add: restore_command_def)
  have E: "\<forall>p q key n m. Name p = Some n \<and> Name q = Some m \<and> n \<noteq> [] \<and> m \<noteq> [] \<and> n \<noteq> m \<longrightarrow>
            label (dnx_command h info p key) \<noteq> label (dnx_command h info q key) \<and>
            label (restore_command h info p) \<noteq> label (restore_command h info q)"
    by (simp add: dnx_command_def restore_command_def)
  from dnx_labels_distinct [of h info] restore_labels_distinct [of h info] C D E
  show ?thesis by blast
qed

theorem labels_unique_witness:
  "distinct (map (display_name (posix_host ''linux''))
       (Projects (Dnx (ex_info ''/opt/dnx'' [ex_web, ex_api]))))
   \<and> distinct (map label
       (dnxExecuteCommand_commands (posix_host ''linux'') (ex_info ''/opt/dnx'' [ex_web, ex_api])))
   \<and> distinct (map label
       (dnxRestoreForAll_commands (posix_host ''linux'') (ex_info ''/opt/dnx'' [ex_web, ex_api])))
   \<and> label (dnx_command (posix_host ''linux'') (ex_info ''/opt/dnx'' [ex_web, ex_api]) ex_web ''run'')
       \<noteq> label (dnx_command (posix_host ''linux'') (ex_info ''/opt/dnx'' [ex_web, ex_api]) ex_api ''run'')"
proof -
  let ?h = "posix_host ''linux''"
  let ?info = "ex_info ''/opt/dnx'' [ex_web, ex_api]"
  have names: "distinct (map (display_name ?h) (Projects (Dnx ?info)))"
    by (simp add: posix_eval ex_eval)
  have keys: "\<forall>project \<in> set (Projects (Dnx ?info)).
       distinct (Object_keys (Commands project)) \<and>
       (\<forall>key \<in> set (Object_keys (Commands project)). CHR ''('' \<notin> set key)"
    by (simp add: Object_keys_def ex_eval)
  have differ: "display_name ?h ex_web \<noteq> display_name ?h ex_api"
    by (simp add: posix_eval ex_eval)
  from labels_unique [of ?h ?info] names keys differ show ?thesis by blast
qed

theorem labels_unique_counterexample:
  "map label (dnxExecuteCommand_commands (posix_host ''linux'') (ex_info ''/opt/dnx'' [ex_api, ex_lib]))
     = [''dnx run - (project.json)'', ''dnx run - (project.json)'']
   \<and> map label (dnxRestoreForAll_commands (posix_host ''linux'') (ex_info ''/opt/dnx'' [ex_api, ex_lib]))
     = [''dnu restore - (project.json)'', ''dnu restore - (project.json)'']
   \<and> map label (dnxExecuteCommand_commands (posix_host ''linux'') (ex_info ''/opt/dnx'' [ex_web2, ex_lib, ex_web]))
     = [''dnx run - (web)'', ''dnx run - (project.json)'', ''dnx run - (web)'', ''dnx test - (web)'']
   \<and> map label (dnxExecuteCommand_commands (posix_host ''linux'') (ex_info ''/opt/dnx'' [ex_odd1, ex_odd2]))
     = [''dnx a - (b - (c)'', ''dnx a - (b - (c)'']"
  by (simp add: dnxExecuteCommand_commands_def dnxRestoreForAll_commands_def dnx_command_def
      restore_command_def Object_keys_def posix_eval ex_eval
      ex_lib_def ex_web2_def ex_odd1_def ex_odd2_def)

section \<open>The runtime pattern\<close>

lemma beta_here_iff:
  "beta_here s \<longleftrightarrow> (\<exists>d post. s = ''-beta'' @ d # post \<and> d \<in> set ''123456'')"
proof
  assume b: "beta_here s"
  then have t: "take 5 s = ''-beta''" by (simp add: beta_here_def)
  from b obtain d post where dp: "drop 5 s = d # post" and d: "d \<in> set ''123456''"
    by (auto simp: beta_here_def split: list.splits)
  have "s = take 5 s @ drop 5 s" by simp
  with t dp have "s = ''-beta'' @ d # post" by metis
  with d show "\<exists>d post. s = ''-beta'' @ d # post \<and> d \<in> set ''123456''" by blast
next
  assume "\<exists>d post. s = ''-beta'' @ d # post \<and> d \<in> set ''123456''"
  then show "beta_here s" by (auto simp: beta_here_def)
qed

lemma test_beta_iff:
  "test_beta s \<longleftrightarrow> (\<exists>pre d post. s = pre @ ''-beta'' @ d # post \<and> d \<in> set ''123456'')"
proof (induction s)
  case Nil
  then show ?case by simp
next
  case (Cons c cs)
  show ?case
  proof
    assume "test_beta (c # cs)"
    then consider "beta_here (c # cs)" | "test_beta cs" by auto
    then show "\<exists>pre d post. c # cs = pre @ ''-beta'' @ d # post \<and> d \<in> set ''123456''"
    proof cases
      case 1
      then obtain d post where "c # cs = [] @ ''-beta'' @ d # post" "d \<in> set ''123456''"
        unfolding beta_here_iff by auto
      then show ?thesis by blast
    next
      case 2
      with Cons.IH obtain pre d post where "cs = pre @ ''-beta'' @ d # post" "d \<in> set ''123456''"
        by blast
      then have "c # cs = (c # pre) @ ''-beta'' @ d # post" by simp
      with \<open>d \<in> set ''123456''\<close> show ?thesis by blast
    qed
  next
    assume "\<exists>pre d post. c # cs = pre @ ''-beta'' @ d # post \<and> d \<in> set ''123456''"
    then obtain pre d post where eq: "c # cs = pre @ ''-beta'' @ d # post" and d: "d \<in> set ''123456''"
      by blast
    show "test_beta (c # cs)"
    proof (cases pre)
      case Nil
      with eq d have "beta_here (c # cs)" unfolding beta_here_iff by auto
      then show ?thesis by simp
    next
      case (Cons a pre')
      with eq have "cs = pre' @ ''-beta'' @ d # post" by simp
      with d Cons.IH have "test_beta cs" by blast
      then show ?thesis by simp
    qed
  qed
qed

lemma beta_here_before_beta7:
  "beta_here (c # pre @ ''-beta7'' @ post) = beta_here (c # pre)"
  by (auto simp: beta_here_def append_eq_Cons_conv Cons_eq_append_conv take_Cons' drop_Cons'
      split: list.splits if_splits)

lemma test_beta_beta7: "test_beta (pre @ ''-beta7'' @ post) = (test_beta pre \<or> test_beta post)"
proof (induction pre)
  case Nil
  show ?case by (simp add: beta_here_def)
next
  case (Cons c pre)
  have "beta_here (c # pre @ ''-beta7'' @ post) = beta_here (c # pre)"
    by (rule beta_here_before_beta7)
  with Cons show ?case by simp
qed

lemma test_beta_beta3: "test_beta (pre @ ''-beta3'' @ post)"
  unfolding test_beta_iff by (rule exI [of _ pre], rule exI [of _ "CHR ''3''"], rule exI [of _ post]) simp

section \<open>Executing an entry\<close>

lemma dnx_execute_eq:
  "dnx_execute h info project key this w =
     runInTerminal
       (if isWin h then path_join h (RuntimePath (Dnx info)) ''bin/dnx'' @ ''.exe''
        else path_join h (RuntimePath (Dnx info)) ''bin/dnx'')
       (if test_beta (RuntimePath (Dnx info)) then [''.'', key] else [key])
       (path_dirname h (Path project))
       (w\<lparr>lastCommand := Some this\<rparr>)"
  by (simp add: dnx_execute_def Let_def)

lemma restore_execute_eq:
  "restore_execute h info project w =
     runInTerminal
       (if isWin h then path_join h (RuntimePath (Dnx info)) ''bin/dnu'' @ ''.cmd''
        else path_join h (RuntimePath (Dnx info)) ''bin/dnu'')
       [''restore''] (path_dirname h (Path project)) w"
  by (simp add: restore_execute_def Let_def)

lemma Command_execute_dnx:
  "Command_execute h (dnx_command h info project key) w =
     dnx_execute h info project key (dnx_command h info project key) w"
  by (simp add: Command_execute_def dnx_command_def)

lemma Command_execute_restore:
  "Command_execute h (restore_command h info project) w = restore_execute h info project w"
  by (simp add: Command_execute_def restore_command_def)

text \<open>
  C3 (as amended). The argument list a dnx entry passes to the terminal is
  \<^verbatim>\<open>['.', key]\<close> when the runtime path contains, at any position, the text
  \<^verbatim>\<open>-beta\<close> immediately followed by one of the digits 1 to 6, and \<^verbatim>\<open>[key]\<close>
  otherwise. Every path containing \<^verbatim>\<open>-beta3\<close> yields \<^verbatim>\<open>['.', key]\<close>. A path
  containing \<^verbatim>\<open>-beta7\<close> yields \<^verbatim>\<open>[key]\<close> exactly when neither the text before
  that occurrence nor the text after it matches the pattern.
\<close>

theorem dnx_arguments:
  "(\<exists>command cwd.
      trace (snd (Command_execute h (dnx_command h info project key) w)) =
        trace w @ [RunInTerminal command
                     (if test_beta (RuntimePath (Dnx info)) then [''.'', key] else [key]) cwd])
   \<and> (test_beta runtimePath \<longleftrightarrow>
        (\<exists>pre d post. runtimePath = pre @ ''-beta'' @ d # post \<and> d \<in> set ''123456''))
   \<and> test_beta (pre @ ''-beta3'' @ post)
   \<and> (test_beta (pre @ ''-beta7'' @ post) \<longleftrightarrow> test_beta pre \<or> test_beta post)"
proof -
  have "\<exists>command cwd.
      trace (snd (Command_execute h (dnx_command h info project key) w)) =
        trace w @ [RunInTerminal command
                     (if test_beta (RuntimePath (Dnx info)) then [''.'', key] else [key]) cwd]"
    by (simp add: Command_execute_dnx dnx_execute_eq runInTerminal_def emit_def)
  then show ?thesis
    using test_beta_iff [of runtimePath] test_beta_beta3 [of pre post] test_beta_beta7 [of pre post]
    by blast
qed

theorem dnx_arguments_witness:
  "trace (snd (Command_execute (posix_host ''linux'')
       (dnx_command (posix_host ''linux'') (ex_info ''/opt/dnx-mono.1.0.0-beta3'' [ex_web]) ex_web ''run'')
       (ex_world (Resolved (ex_info ''/opt/dnx-mono.1.0.0-beta3'' [ex_web]))))) =
     [RunInTerminal ''/opt/dnx-mono.1.0.0-beta3/bin/dnx'' [''.'', ''run''] ''/ws/web'']
   \<and> test_beta ''/opt/dnx-mono.1.0.0-beta3''
   \<and> \<not> test_beta ''/opt/dnx-mono.1.0.0-beta7''"
  using dnx_arguments [of "posix_host ''linux''" "ex_info ''/opt/dnx-mono.1.0.0-beta3'' [ex_web]"
      ex_web "''run''" "ex_world (Resolved (ex_info ''/opt/dnx-mono.1.0.0-beta3'' [ex_web]))"
      "''/opt/dnx-mono.1.0.0-beta3''" "''/opt/dnx-mono.1.0.0''" "[]"]
  by (simp add: Command_execute_def dnx_command_def dnx_execute_def runInTerminal_def emit_def
      isWin_def test_win_def beta_here_def posix_eval ex_eval)

theorem beta7_counterexample:
  "trace (snd (Command_execute (posix_host ''linux'')
       (dnx_command (posix_host ''linux'')
          (ex_info ''/opt/dnx-beta3/runtimes/dnx-mono.1.0.0-beta7'' [ex_web]) ex_web ''run'')
       (ex_world (Resolved (ex_info ''/opt/dnx-beta3/runtimes/dnx-mono.1.0.0-beta7'' [ex_web]))))) =
     [RunInTerminal ''/opt/dnx-beta3/runtimes/dnx-mono.1.0.0-beta7/bin/dnx'' [''.'', ''run''] ''/ws/web'']"
  by (simp add: Command_execute_def dnx_command_def dnx_execute_def runInTerminal_def emit_def
      isWin_def test_win_def beta_here_def posix_eval ex_eval)

text \<open>
  C9. On a platform whose name starts with \<^verbatim>\<open>win\<close> the dnx entry runs
  \<^verbatim>\<open>path.join(RuntimePath, 'bin/dnx')\<close> with \<^verbatim>\<open>.exe\<close> appended and the restore
  entry runs \<^verbatim>\<open>path.join(RuntimePath, 'bin/dnu')\<close> with \<^verbatim>\<open>.cmd\<close> appended; on
  any other platform the joined path is used as it is.
\<close>

theorem executable_suffix:
  "trace (snd (Command_execute h (dnx_command h info project key) w)) =
     trace w @
       [RunInTerminal
          (if isWin h then path_join h (RuntimePath (Dnx info)) ''bin/dnx'' @ ''.exe''
           else path_join h (RuntimePath (Dnx info)) ''bin/dnx'')
          (if test_beta (RuntimePath (Dnx info)) then [''.'', key] else [key])
          (path_dirname h (Path project))]
   \<and> trace (snd (Command_execute h (restore_command h info project) w)) =
     trace w @
       [RunInTerminal
          (if isWin h then path_join h (RuntimePath (Dnx info)) ''bin/dnu'' @ ''.cmd''
           else path_join h (RuntimePath (Dnx info)) ''bin/dnu'')
          [''restore'']
          (path_dirname h (Path project))]
   \<and> isWin h = (take 3 (process_platform h) = ''win'')"
  by (simp add: Command_execute_dnx Command_execute_restore dnx_execute_eq restore_execute_eq
      runInTerminal_def emit_def isWin_def test_win_def)

theorem executable_suffix_witness:
  "(\<forall>basename dirname join.
      trace (snd (Command_execute
        \<lparr>process_platform = ''win32'', path_basename = basename, path_dirname = dirname,
           path_join = join\<rparr>
        (dnx_command
           \<lparr>process_platform = ''win32'', path_basename = basename, path_dirname = dirname,
              path_join = join\<rparr>
           (ex_info ''C:/dnx'' [ex_web]) ex_web ''run'')
        (ex_world (Resolved (ex_info ''C:/dnx'' [ex_web]))))) =
      [RunInTerminal (join ''C:/dnx'' ''bin/dnx'' @ ''.exe'') [''run'']
         (dirname ''/ws/web/project.json'')]
    \<and> trace (snd (Command_execute
        \<lparr>process_platform = ''win32'', path_basename = basename, path_dirname = dirname,
           path_join = join\<rparr>
        (restore_command
           \<lparr>process_platform = ''win32'', path_basename = basename, path_dirname = dirname,
              path_join = join\<rparr>
           (ex_info ''C:/dnx'' [ex_web]) ex_web)
        (ex_world (Resolved (ex_info ''C:/dnx'' [ex_web]))))) =
      [RunInTerminal (join ''C:/dnx'' ''bin/dnu'' @ ''.cmd'') [''restore'']
         (dirname ''/ws/web/project.json'')])
   \<and> trace (snd (Command_execute (posix_host ''darwin'')
       (dnx_command (posix_host ''darwin'') (ex_info ''/opt/dnx'' [ex_web]) ex_web ''run'')
       (ex_world (Resolved (ex_info ''/opt/dnx'' [ex_web]))))) =
     [RunInTerminal ''/opt/dnx/bin/dnx'' [''run''] ''/ws/web'']
   \<and> trace (snd (Command_execute (posix_host ''darwin'')
       (restore_command (posix_host ''darwin'') (ex_info ''/opt/dnx'' [ex_web]) ex_web)
       (ex_world (Resolved (ex_info ''/opt/dnx'' [ex_web]))))) =
     [RunInTerminal ''/opt/dnx/bin/dnu'' [''restore''] ''/ws/web'']"
proof -
  have win: "trace (snd (Command_execute
        \<lparr>process_platform = ''win32'', path_basename = basename, path_dirname = dirname,
           path_join = join\<rparr>
        (dnx_command
           \<lparr>process_platform = ''win32'', path_basename = basename, path_dirname = dirname,
              path_join = join\<rparr>
           (ex_info ''C:/dnx'' [ex_web]) ex_web ''run'')
        (ex_world (Resolved (ex_info ''C:/dnx'' [ex_web]))))) =
      [RunInTerminal (join ''C:/dnx'' ''bin/dnx'' @ ''.exe'') [''run'']
         (dirname ''/ws/web/project.json'')]
    \<and> trace (snd (Command_execute
        \<lparr>process_platform = ''win32'', path_basename = basename, path_dirname = dirname,
           path_join = join\<rparr>
        (restore_command
           \<lparr>process_platform = ''win32'', path_basename = basename, path_dirname = dirname,
              path_join = join\<rparr>
           (ex_info ''C:/dnx'' [ex_web]) ex_web)
        (ex_world (Resolved (ex_info ''C:/dnx'' [ex_web]))))) =
      [RunInTerminal (join ''C:/dnx'' ''bin/dnu'' @ ''.cmd'') [''restore'']
         (dirname ''/ws/web/project.json'')]"
    for basename dirname join
    using executable_suffix [of
        "\<lparr>process_platform = ''win32'', path_basename = basename, path_dirname = dirname,
           path_join = join\<rparr>"
        "ex_info ''C:/dnx'' [ex_web]" ex_web "''run''"
        "ex_world (Resolved (ex_info ''C:/dnx'' [ex_web]))"]
    by (simp add: isWin_def test_win_def beta_here_def ex_eval)
  have mac: "trace (snd (Command_execute (posix_host ''darwin'')
       (dnx_command (posix_host ''darwin'') (ex_info ''/opt/dnx'' [ex_web]) ex_web ''run'')
       (ex_world (Resolved (ex_info ''/opt/dnx'' [ex_web]))))) =
     [RunInTerminal ''/opt/dnx/bin/dnx'' [''run''] ''/ws/web'']
   \<and> trace (snd (Command_execute (posix_host ''darwin'')
       (restore_command (posix_host ''darwin'') (ex_info ''/opt/dnx'' [ex_web]) ex_web)
       (ex_world (Resolved (ex_info ''/opt/dnx'' [ex_web]))))) =
     [RunInTerminal ''/opt/dnx/bin/dnu'' [''restore''] ''/ws/web'']"
    using executable_suffix [of "posix_host ''darwin''" "ex_info ''/opt/dnx'' [ex_web]" ex_web
        "''run''" "ex_world (Resolved (ex_info ''/opt/dnx'' [ex_web]))"]
    by (simp add: isWin_def test_win_def beta_here_def posix_eval ex_eval)
  from win mac show ?thesis by (intro conjI allI) simp_all
qed

section \<open>The last command\<close>

lemma lastCommand_runInTerminal:
  "lastCommand (snd (runInTerminal command args cwd w)) = lastCommand w"
  by (simp add: runInTerminal_def emit_def)

lemma lastCommand_restore_loop:
  "lastCommand (snd (dnxRestoreForProject_loop h info fileName ps w)) = lastCommand w"
  by (induction ps) (simp_all add: Let_def lastCommand_runInTerminal)

lemma lastCommand_DnuRestore:
  "execute c = DnuRestore info project \<Longrightarrow> lastCommand (snd (Command_execute h c w)) = lastCommand w"
  by (simp add: Command_execute_def restore_execute_eq lastCommand_runInTerminal)

lemma showQuickPick_Some:
  "showQuickPick items w = (Some c, w') \<Longrightarrow> c \<in> set items \<and> lastCommand w' = lastCommand w"
  by (auto simp: showQuickPick_def emit_def split: option.splits if_splits)

lemma showQuickPick_None:
  "showQuickPick items w = (None, w') \<Longrightarrow> lastCommand w' = lastCommand w"
  by (auto simp: showQuickPick_def emit_def split: option.splits if_splits)

lemma lastCommand_dnxRestoreForAll:
  "lastCommand (snd (dnxRestoreForAll h w)) = lastCommand w"
proof (cases "isRunning w")
  case False
  then show ?thesis by (simp add: dnxRestoreForAll_def)
next
  case True
  show ?thesis
  proof (cases "makeRequest_Projects w")
    case (Rejected reason)
    with True show ?thesis by (simp add: dnxRestoreForAll_def makeRequest_def emit_def)
  next
    case (Resolved info)
    let ?w1 = "emit MakeRequest_Projects w"
    obtain r w2 where pick: "showQuickPick (dnxRestoreForAll_commands h info) ?w1 = (r, w2)"
      by (cases "showQuickPick (dnxRestoreForAll_commands h info) ?w1")
    have run: "dnxRestoreForAll h w =
        (case r of None \<Rightarrow> (Resolved (), w2) | Some command \<Rightarrow> Command_execute h command w2)"
      using True Resolved pick by (simp add: dnxRestoreForAll_def makeRequest_def)
    have w1: "lastCommand ?w1 = lastCommand w" by (simp add: emit_def)
    show ?thesis
    proof (cases r)
      case None
      with pick run w1 show ?thesis by (simp add: showQuickPick_None)
    next
      case (Some c)
      with pick have "c \<in> set (dnxRestoreForAll_commands h info)" and w2: "lastCommand w2 = lastCommand ?w1"
        by (simp_all add: showQuickPick_Some)
      then obtain project where "c = restore_command h info project"
        by (auto simp: dnxRestoreForAll_commands_eq)
      then have "execute c = DnuRestore info project" by (simp add: restore_command_def)
      then have "lastCommand (snd (Command_execute h c w2)) = lastCommand w2"
        by (rule lastCommand_DnuRestore)
      with run Some w2 w1 show ?thesis by simp
    qed
  qed
qed

lemma lastCommand_dnxRestoreForProject:
  "lastCommand (snd (dnxRestoreForProject h fileName w)) = lastCommand w"
  by (cases "makeRequest_Projects w")
     (simp_all add: dnxRestoreForProject_def makeRequest_def lastCommand_restore_loop emit_def)

lemma lastCommand_dotnetRestore:
  "lastCommand (snd (dotnetRestore h w)) = lastCommand w"
  by (simp add: dotnetRestore_def Let_def lastCommand_runInTerminal)

lemma lastCommand_addTasksJson:
  "lastCommand (snd (addTasksJson h extensionPath w)) = lastCommand w"
  by (simp add: addTasksJson_def Let_def showInformationMessage_def ensureDirectoryCreated_def
      pathHelpers_mkdir_def pipe_def emit_def)

text \<open>
  C10. Executing an entry whose method is the dnx body runs the terminal from a
  world in which \<^verbatim>\<open>lastCommand\<close> already is that entry, and the variable holds
  the entry afterwards whatever the outcome of the run. Executing an entry whose
  method is the restore body leaves the variable as it was, and so do
  \<^verbatim>\<open>dnxRestoreForAll\<close>, \<^verbatim>\<open>dnxRestoreForProject\<close>, \<^verbatim>\<open>dotnetRestore\<close> and
  \<^verbatim>\<open>addTasksJson\<close>.
\<close>

theorem lastCommand_assignment:
  "(execute c = DnxExecute info project key \<longrightarrow>
      (\<exists>command args cwd.
         Command_execute h c w = runInTerminal command args cwd (w\<lparr>lastCommand := Some c\<rparr>))
      \<and> lastCommand (snd (Command_execute h c w)) = Some c)
   \<and> (execute c = DnuRestore info project \<longrightarrow>
        lastCommand (snd (Command_execute h c w)) = lastCommand w)
   \<and> lastCommand (snd (dnxRestoreForAll h w)) = lastCommand w
   \<and> lastCommand (snd (dnxRestoreForProject h fileName w)) = lastCommand w
   \<and> lastCommand (snd (dotnetRestore h w)) = lastCommand w
   \<and> lastCommand (snd (addTasksJson h extensionPath w)) = lastCommand w"
proof -
  have "lastCommand (snd (Command_execute h c w)) = Some c
        \<and> (\<exists>command args cwd.
         Command_execute h c w = runInTerminal command args cwd (w\<lparr>lastCommand := Some c\<rparr>))"
    if "execute c = DnxExecute info project key"
    using that by (simp add: Command_execute_def dnx_execute_eq lastCommand_runInTerminal) blast
  then show ?thesis
    using lastCommand_DnuRestore [of c info project h w] lastCommand_dnxRestoreForAll [of h w]
      lastCommand_dnxRestoreForProject [of h fileName w] lastCommand_dotnetRestore [of h w]
      lastCommand_addTasksJson [of h extensionPath w]
    by blast
qed


theorem lastCommand_assignment_witness:
  "execute (dnx_command (posix_host ''linux'') (ex_info ''/opt/dnx'' [ex_web]) ex_web ''run'')
     = DnxExecute (ex_info ''/opt/dnx'' [ex_web]) ex_web ''run''
   \<and> lastCommand (ex_world (Resolved (ex_info ''/opt/dnx'' [ex_web]))
        \<lparr>runInTerminal_outcome := \<lambda>command args cwd. Rejected ''exit code 1''\<rparr>) = None
   \<and> fst (Command_execute (posix_host ''linux'')
        (dnx_command (posix_host ''linux'') (ex_info ''/opt/dnx'' [ex_web]) ex_web ''run'')
        (ex_world (Resolved (ex_info ''/opt/dnx'' [ex_web]))
           \<lparr>runInTerminal_outcome := \<lambda>command args cwd. Rejected ''exit code 1''\<rparr>))
     = Rejected ''exit code 1''
   \<and> lastCommand (snd (Command_execute (posix_host ''linux'')
        (dnx_command (posix_host ''linux'') (ex_info ''/opt/dnx'' [ex_web]) ex_web ''run'')
        (ex_world (Resolved (ex_info ''/opt/dnx'' [ex_web]))
           \<lparr>runInTerminal_outcome := \<lambda>command args cwd. Rejected ''exit code 1''\<rparr>)))
     = Some (dnx_command (posix_host ''linux'') (ex_info ''/opt/dnx'' [ex_web]) ex_web ''run'')"
  using lastCommand_assignment [of
      "dnx_command (posix_host ''linux'') (ex_info ''/opt/dnx'' [ex_web]) ex_web ''run''"
      "ex_info ''/opt/dnx'' [ex_web]" ex_web "''run''" "posix_host ''linux''"
      "ex_world (Resolved (ex_info ''/opt/dnx'' [ex_web]))
           \<lparr>runInTerminal_outcome := \<lambda>command args cwd. Rejected ''exit code 1''\<rparr>"]
  by (simp add: dnx_command_def Command_execute_def dnx_execute_def runInTerminal_def Let_def
      ex_world_def)

section \<open>Restoring one project\<close>

lemma dnxRestoreForProject_loop_find:
  "dnxRestoreForProject_loop h info fileName ps w =
     (case find (\<lambda>project. Path project = fileName) ps of
        None \<Rightarrow>
          (Rejected (''Failed to execute restore, try to run 'dnu restore' manually for '' @
                     fileName @ ''.''), w)
      | Some project \<Rightarrow>
          runInTerminal
            (if isWin h then path_join h (RuntimePath (Dnx info)) ''bin/dnu'' @ ''.cmd''
             else path_join h (RuntimePath (Dnx info)) ''bin/dnu'')
            [''restore''] (path_dirname h (Path project)) w)"
  by (induction ps) (simp_all add: Let_def)

text \<open>
  C6. When the request for the projects resolves, \<^verbatim>\<open>dnxRestoreForProject\<close> looks
  for the first project whose path equals the file name. If there is one, the only
  call after the request is one terminal run of \<^verbatim>\<open>dnu restore\<close> in that
  project's directory, and its outcome is the result; no picker is shown. If there
  is none, the result is a rejection whose message names the manual command
  \<^verbatim>\<open>dnu restore\<close> and the file name, and nothing is run.
\<close>

theorem restore_for_project:
  assumes "makeRequest_Projects w = Resolved info"
  shows "case find (\<lambda>project. Path project = fileName) (Projects (Dnx info)) of
           None \<Rightarrow>
             dnxRestoreForProject h fileName w =
               (Rejected (''Failed to execute restore, try to run 'dnu restore' manually for '' @
                          fileName @ ''.''),
                w\<lparr>trace := trace w @ [MakeRequest_Projects]\<rparr>)
         | Some project \<Rightarrow>
             fst (dnxRestoreForProject h fileName w) =
               runInTerminal_outcome w
                 (if isWin h then path_join h (RuntimePath (Dnx info)) ''bin/dnu'' @ ''.cmd''
                  else path_join h (RuntimePath (Dnx info)) ''bin/dnu'')
                 [''restore''] (path_dirname h (Path project))
             \<and> snd (dnxRestoreForProject h fileName w) =
               w\<lparr>trace := trace w @
                  [MakeRequest_Projects,
                   RunInTerminal
                     (if isWin h then path_join h (RuntimePath (Dnx info)) ''bin/dnu'' @ ''.cmd''
                      else path_join h (RuntimePath (Dnx info)) ''bin/dnu'')
                     [''restore''] (path_dirname h (Path project))]\<rparr>"
  using assms
  by (simp add: dnxRestoreForProject_def makeRequest_def dnxRestoreForProject_loop_find
      runInTerminal_def emit_def split: option.split)

theorem restore_for_project_witness:
  "dnxRestoreForProject (posix_host ''linux'') ''/ws/api/project.json''
      (ex_world (Resolved (ex_info ''/opt/dnx'' [ex_web, ex_api]))) =
     (Resolved (),
      ex_world (Resolved (ex_info ''/opt/dnx'' [ex_web, ex_api]))
        \<lparr>trace := [MakeRequest_Projects,
                   RunInTerminal ''/opt/dnx/bin/dnu'' [''restore''] ''/ws/api'']\<rparr>)
   \<and> dnxRestoreForProject (posix_host ''linux'') ''/ws/lib/project.json''
      (ex_world (Resolved (ex_info ''/opt/dnx'' [ex_web, ex_api]))) =
     (Rejected ''Failed to execute restore, try to run 'dnu restore' manually for /ws/lib/project.json.'',
      ex_world (Resolved (ex_info ''/opt/dnx'' [ex_web, ex_api]))
        \<lparr>trace := [MakeRequest_Projects]\<rparr>)"
  using restore_for_project [where w = "ex_world (Resolved (ex_info ''/opt/dnx'' [ex_web, ex_api]))"
      and info = "ex_info ''/opt/dnx'' [ex_web, ex_api]" and fileName = "''/ws/api/project.json''"
      and h = "posix_host ''linux''"]
    restore_for_project [where w = "ex_world (Resolved (ex_info ''/opt/dnx'' [ex_web, ex_api]))"
      and info = "ex_info ''/opt/dnx'' [ex_web, ex_api]" and fileName = "''/ws/lib/project.json''"
      and h = "posix_host ''linux''"]
  by (simp add: prod_eq_iff isWin_def test_win_def posix_eval ex_eval)

text \<open>
  C4. With a server that is not running, \<^verbatim>\<open>dnxRestoreForProject\<close> still sends
  the request for the projects and settles as that request does, whereas
  \<^verbatim>\<open>dnxRestoreForAll\<close> rejects with its own message and sends nothing.
\<close>

theorem unguarded_projects_request:
  "dnxRestoreForProject (posix_host ''linux'') ''/ws/web/project.json''
      (ex_world (Rejected ''no response'')\<lparr>isRunning := False\<rparr>) =
     (Rejected ''no response'',
      ex_world (Rejected ''no response'')\<lparr>isRunning := False, trace := [MakeRequest_Projects]\<rparr>)
   \<and> dnxRestoreForAll (posix_host ''linux'')
      (ex_world (Rejected ''no response'')\<lparr>isRunning := False\<rparr>) =
     (Rejected ''OmniSharp server is not running.'',
      ex_world (Rejected ''no response'')\<lparr>isRunning := False\<rparr>)"
  by (simp add: dnxRestoreForProject_def dnxRestoreForAll_def makeRequest_def emit_def ex_world_def)

section \<open>The working directory of dotnet restore\<close>

text \<open>
  C5. With the server opened on the solution file \<^verbatim>\<open>/ws/app.sln\<close>, whose
  directory is \<^verbatim>\<open>/ws\<close>, \<^verbatim>\<open>dotnetRestore\<close> runs \<^verbatim>\<open>dotnet restore\<close> with the
  file itself as working directory.
\<close>

theorem dotnetRestore_cwd_of_solution_file:
  "pathHelpers_getPathKind (ex_world (Resolved (ex_info ''/opt/dnx'' []))) ''/ws/app.sln'' = File
   \<and> path_dirname (posix_host ''linux'') ''/ws/app.sln'' = ''/ws''
   \<and> dotnetRestore (posix_host ''linux'') (ex_world (Resolved (ex_info ''/opt/dnx'' []))) =
       (None,
        ex_world (Resolved (ex_info ''/opt/dnx'' []))
          \<lparr>trace := [RunInTerminal ''dotnet'' [''restore''] ''/ws/app.sln'']\<rparr>)"
  by (simp add: dotnetRestore_def runInTerminal_def emit_def posix_eval ex_world_def)

section \<open>Adding tasks.json\<close>

lemma getExpectedVsCodeFolderPath_trace:
  "getExpectedVsCodeFolderPath h p (w\<lparr>trace := t\<rparr>) = getExpectedVsCodeFolderPath h p w"
  by (simp add: getExpectedVsCodeFolderPath_def)

text \<open>
  C7. With a running server and a known solution path or folder, when
  \<^verbatim>\<open>tasks.json\<close> already exists in the expected \<^verbatim>\<open>.vscode\<close> folder,
  \<^verbatim>\<open>addTasksJson\<close> shows the message that it exists and resolves with its path;
  nothing else changes. A second call from the resulting world does the same: the
  same path, one more message, no directory made and no file copied.
\<close>

theorem addTasksJson_existing_file:
  assumes "isRunning w"
      and "getSolutionPathOrFolder w = Some solutionPathOrFolder" and "solutionPathOrFolder \<noteq> []"
      and "tasksJsonPath =
             path_join h (getExpectedVsCodeFolderPath h solutionPathOrFolder w) ''tasks.json''"
      and "pathHelpers_exists w tasksJsonPath"
  shows "addTasksJson h extensionPath w =
           (Resolved tasksJsonPath,
            w\<lparr>trace := trace w @ [ShowInformationMessage (tasksJsonPath @ '' already exists.'')]\<rparr>)
       \<and> addTasksJson h extensionPath (snd (addTasksJson h extensionPath w)) =
           (Resolved tasksJsonPath,
            w\<lparr>trace := trace w @ [ShowInformationMessage (tasksJsonPath @ '' already exists.''),
                                  ShowInformationMessage (tasksJsonPath @ '' already exists.'')]\<rparr>)"
  using assms
  by (simp add: addTasksJson_def Let_def showInformationMessage_def emit_def
      getExpectedVsCodeFolderPath_trace)

theorem addTasksJson_existing_file_witness:
  "addTasksJson (posix_host ''linux'') ''/ext''
      (ex_world (Resolved (ex_info ''/opt/dnx'' []))
         \<lparr>pathHelpers_exists := \<lambda>p. p = ''/ws/.vscode/tasks.json''\<rparr>) =
     (Resolved ''/ws/.vscode/tasks.json'',
      ex_world (Resolved (ex_info ''/opt/dnx'' []))
         \<lparr>pathHelpers_exists := \<lambda>p. p = ''/ws/.vscode/tasks.json'',
          trace := [ShowInformationMessage ''/ws/.vscode/tasks.json already exists.'']\<rparr>)
   \<and> addTasksJson (posix_host ''linux'') ''/ext''
       (snd (addTasksJson (posix_host ''linux'') ''/ext''
         (ex_world (Resolved (ex_info ''/opt/dnx'' []))
            \<lparr>pathHelpers_exists := \<lambda>p. p = ''/ws/.vscode/tasks.json''\<rparr>))) =
     (Resolved ''/ws/.vscode/tasks.json'',
      ex_world (Resolved (ex_info ''/opt/dnx'' []))
         \<lparr>pathHelpers_exists := \<lambda>p. p = ''/ws/.vscode/tasks.json'',
          trace := [ShowInformationMessage ''/ws/.vscode/tasks.json already exists.'',
                    ShowInformationMessage ''/ws/.vscode/tasks.json already exists.'']\<rparr>)"
proof -
  let ?w = "ex_world (Resolved (ex_info ''/opt/dnx'' []))
         \<lparr>pathHelpers_exists := \<lambda>p. p = ''/ws/.vscode/tasks.json''\<rparr>"
  have 1: "isRunning ?w" by (simp add: ex_world_def)
  have 2: "getSolutionPathOrFolder ?w = Some ''/ws/app.sln''" by (simp add: ex_world_def)
  have 3: "''/ws/app.sln'' \<noteq> []" by simp
  have 4: "''/ws/.vscode/tasks.json'' =
      path_join (posix_host ''linux'')
        (getExpectedVsCodeFolderPath (posix_host ''linux'') ''/ws/app.sln'' ?w) ''tasks.json''"
    by (simp add: getExpectedVsCodeFolderPath_def posix_eval ex_world_def)
  have 5: "pathHelpers_exists ?w ''/ws/.vscode/tasks.json''" by (simp add: ex_world_def)
  have 6: "trace ?w = []" by (simp add: ex_world_def)
  have 7: "''/ws/.vscode/tasks.json'' @ '' already exists.'' =
      ''/ws/.vscode/tasks.json already exists.''" by simp
  show ?thesis
    using addTasksJson_existing_file [OF 1 2 3 4 5, of "''/ext''"]
    unfolding 6 7 append_Nil by blast
qed

text \<open>
  C8. \<^verbatim>\<open>addTasksJson\<close> rejects with a message and copies nothing when the server
  is not running, when no solution path or folder is known, when the template is
  missing (and \<^verbatim>\<open>tasks.json\<close> does not exist yet), and when the \<^verbatim>\<open>.vscode\<close>
  folder is missing and cannot be made, in which case the message names the folder.
  When every check passes the copy is the last call it makes, and a copy among its
  calls implies that every check passed.
\<close>

theorem addTasksJson_error_paths:
  assumes "vscodeFolderPath = getExpectedVsCodeFolderPath h (the (getSolutionPathOrFolder w)) w"
      and "tasksJsonPath = path_join h vscodeFolderPath ''tasks.json''"
      and "templatePath = path_join h extensionPath ''template-tasks.json''"
  shows "(\<not> isRunning w \<longrightarrow>
            addTasksJson h extensionPath w = (Rejected ''OmniSharp is not running.'', w))
       \<and> (isRunning w \<and> \<not> truthy (getSolutionPathOrFolder w) \<longrightarrow>
            addTasksJson h extensionPath w = (Rejected ''No solution or folder open.'', w))
       \<and> (isRunning w \<and> truthy (getSolutionPathOrFolder w) \<and> \<not> pathHelpers_exists w tasksJsonPath
            \<and> \<not> pathHelpers_exists w templatePath \<longrightarrow>
            addTasksJson h extensionPath w =
              (Rejected ''Could not find template-tasks.json file in extension.'', w))
       \<and> (isRunning w \<and> truthy (getSolutionPathOrFolder w) \<and> \<not> pathHelpers_exists w tasksJsonPath
            \<and> pathHelpers_exists w templatePath \<and> \<not> pathHelpers_exists w vscodeFolderPath
            \<and> \<not> mkdir_succeeds w vscodeFolderPath \<longrightarrow>
            addTasksJson h extensionPath w =
              (Rejected (''Could not create '' @ vscodeFolderPath @ '' directory.''),
               w\<lparr>trace := trace w @ [Mkdir vscodeFolderPath]\<rparr>))
       \<and> (isRunning w \<and> truthy (getSolutionPathOrFolder w) \<and> \<not> pathHelpers_exists w tasksJsonPath
            \<and> pathHelpers_exists w templatePath
            \<and> (pathHelpers_exists w vscodeFolderPath \<or> mkdir_succeeds w vscodeFolderPath) \<longrightarrow>
            fst (addTasksJson h extensionPath w) = Resolved tasksJsonPath
            \<and> trace (snd (addTasksJson h extensionPath w)) =
                trace w @ (if pathHelpers_exists w vscodeFolderPath then [] else [Mkdir vscodeFolderPath])
                        @ [Pipe templatePath tasksJsonPath])
       \<and> ((\<exists>oldFile newFile.
              Pipe oldFile newFile \<in> set (drop (length (trace w))
                                           (trace (snd (addTasksJson h extensionPath w))))) \<longrightarrow>
            isRunning w \<and> truthy (getSolutionPathOrFolder w) \<and> \<not> pathHelpers_exists w tasksJsonPath
            \<and> pathHelpers_exists w templatePath
            \<and> (pathHelpers_exists w vscodeFolderPath \<or> mkdir_succeeds w vscodeFolderPath))"
  unfolding assms
  by (simp add: addTasksJson_def Let_def showInformationMessage_def ensureDirectoryCreated_def
      pathHelpers_mkdir_def pipe_def emit_def)


theorem addTasksJson_error_paths_witness:
  "addTasksJson (posix_host ''linux'') ''/ext''
      (ex_world (Resolved (ex_info ''/opt/dnx'' []))\<lparr>isRunning := False\<rparr>) =
     (Rejected ''OmniSharp is not running.'',
      ex_world (Resolved (ex_info ''/opt/dnx'' []))\<lparr>isRunning := False\<rparr>)
   \<and> addTasksJson (posix_host ''linux'') ''/ext''
      (ex_world (Resolved (ex_info ''/opt/dnx'' []))\<lparr>getSolutionPathOrFolder := None\<rparr>) =
     (Rejected ''No solution or folder open.'',
      ex_world (Resolved (ex_info ''/opt/dnx'' []))\<lparr>getSolutionPathOrFolder := None\<rparr>)
   \<and> addTasksJson (posix_host ''linux'') ''/ext''
      (ex_world (Resolved (ex_info ''/opt/dnx'' []))\<lparr>pathHelpers_exists := \<lambda>p. p = ''/ws''\<rparr>) =
     (Rejected ''Could not find template-tasks.json file in extension.'',
      ex_world (Resolved (ex_info ''/opt/dnx'' []))\<lparr>pathHelpers_exists := \<lambda>p. p = ''/ws''\<rparr>)
   \<and> addTasksJson (posix_host ''linux'') ''/ext''
      (ex_world (Resolved (ex_info ''/opt/dnx'' []))\<lparr>mkdir_succeeds := \<lambda>p. False\<rparr>) =
     (Rejected ''Could not create /ws/.vscode directory.'',
      ex_world (Resolved (ex_info ''/opt/dnx'' []))
        \<lparr>mkdir_succeeds := \<lambda>p. False, trace := [Mkdir ''/ws/.vscode'']\<rparr>)
   \<and> fst (addTasksJson (posix_host ''linux'') ''/ext'' (ex_world (Resolved (ex_info ''/opt/dnx'' []))))
       = Resolved ''/ws/.vscode/tasks.json''
   \<and> trace (snd (addTasksJson (posix_host ''linux'') ''/ext''
        (ex_world (Resolved (ex_info ''/opt/dnx'' [])))))
       = [Mkdir ''/ws/.vscode'', Pipe ''/ext/template-tasks.json'' ''/ws/.vscode/tasks.json'']"
proof -
  let ?h = "posix_host ''linux''"
  let ?w = "ex_world (Resolved (ex_info ''/opt/dnx'' []))"
  have paths: "''/ws/.vscode/tasks.json'' = path_join ?h ''/ws/.vscode'' ''tasks.json''"
    "''/ext/template-tasks.json'' = path_join ?h ''/ext'' ''template-tasks.json''"
    by (simp_all add: posix_eval)
  have folder: "''/ws/.vscode'' = getExpectedVsCodeFolderPath ?h (the (getSolutionPathOrFolder w)) w"
    if "getSolutionPathOrFolder w = Some ''/ws/app.sln''"
      and "pathHelpers_getPathKind w ''/ws/app.sln'' = File" for w
    using that by (simp add: getExpectedVsCodeFolderPath_def posix_eval)
  have 1: "addTasksJson ?h ''/ext'' (?w\<lparr>isRunning := False\<rparr>) =
      (Rejected ''OmniSharp is not running.'', ?w\<lparr>isRunning := False\<rparr>)"
    using addTasksJson_error_paths [where h = ?h and extensionPath = "''/ext''"
        and w = "?w\<lparr>isRunning := False\<rparr>", OF refl refl refl]
    by simp
  have 2: "addTasksJson ?h ''/ext'' (?w\<lparr>getSolutionPathOrFolder := None\<rparr>) =
      (Rejected ''No solution or folder open.'', ?w\<lparr>getSolutionPathOrFolder := None\<rparr>)"
    using addTasksJson_error_paths [where h = ?h and extensionPath = "''/ext''"
        and w = "?w\<lparr>getSolutionPathOrFolder := None\<rparr>", OF refl refl refl]
    by (simp add: ex_world_def)
  have "''/ws/.vscode'' = getExpectedVsCodeFolderPath ?h
          (the (getSolutionPathOrFolder (?w\<lparr>pathHelpers_exists := \<lambda>p. p = ''/ws''\<rparr>)))
          (?w\<lparr>pathHelpers_exists := \<lambda>p. p = ''/ws''\<rparr>)"
    by (rule folder) (simp_all add: ex_world_def)
  note t3 = addTasksJson_error_paths [where extensionPath = "''/ext''", OF this paths]
  have 3: "addTasksJson ?h ''/ext'' (?w\<lparr>pathHelpers_exists := \<lambda>p. p = ''/ws''\<rparr>) =
      (Rejected ''Could not find template-tasks.json file in extension.'',
       ?w\<lparr>pathHelpers_exists := \<lambda>p. p = ''/ws''\<rparr>)"
    using t3 by (simp add: ex_world_def)
  have "''/ws/.vscode'' = getExpectedVsCodeFolderPath ?h
          (the (getSolutionPathOrFolder (?w\<lparr>mkdir_succeeds := \<lambda>p. False\<rparr>)))
          (?w\<lparr>mkdir_succeeds := \<lambda>p. False\<rparr>)"
    by (rule folder) (simp_all add: ex_world_def)
  note t4 = addTasksJson_error_paths [where extensionPath = "''/ext''", OF this paths]
  have 4: "addTasksJson ?h ''/ext'' (?w\<lparr>mkdir_succeeds := \<lambda>p. False\<rparr>) =
      (Rejected ''Could not create /ws/.vscode directory.'',
       ?w\<lparr>mkdir_succeeds := \<lambda>p. False, trace := [Mkdir ''/ws/.vscode'']\<rparr>)"
    using t4 by (simp add: ex_world_def)
  have "''/ws/.vscode'' = getExpectedVsCodeFolderPath ?h (the (getSolutionPathOrFolder ?w)) ?w"
    by (rule folder) (simp_all add: ex_world_def)
  note t5 = addTasksJson_error_paths [where extensionPath = "''/ext''", OF this paths]
  have 5: "fst (addTasksJson ?h ''/ext'' ?w) = Resolved ''/ws/.vscode/tasks.json''
      \<and> trace (snd (addTasksJson ?h ''/ext'' ?w)) =
          [Mkdir ''/ws/.vscode'', Pipe ''/ext/template-tasks.json'' ''/ws/.vscode/tasks.json'']"
    using t5 by (simp add: ex_world_def)
  from 1 2 3 4 5 show ?thesis by blast
qed

end
